theory Spec2Isabelle
  imports Complex_Main "HOL-Library.Sublist"
begin

section \<open>Python values\<close>

text \<open>
  The services receive parsed JSON (the result of \<^verbatim>\<open>response.json()\<close> and of
  \<^verbatim>\<open>request.get_json()\<close>), so the model has the Python objects a JSON document parses
  to. A \<open>string\<close> is a Python \<^verbatim>\<open>str\<close> whose code points are all below 256 (the
  Latin-1 block, where \<open>CHR 0xE7\<close> is the c-cedilla of \<^verbatim>\<open>Praca\<close>): one \<open>char\<close> per
  code point. A dict is an association list read with \<open>map_of\<close>.
\<close>

text \<open>
  A Python float: the finite doubles are reals, beside the two infinities and NaN.
  Negative zero is \<open>Finite 0\<close>: like zero, it is falsy and compares equal to zero.
\<close>

datatype pyfloat = Finite real | PosInf | NegInf | NaN

datatype pyval =
    PNone
  | PBool bool
  | PInt int
  | PFloat pyfloat
  | PStr string
  | PList "pyval list"
  | PDict "(string \<times> pyval) list"

text \<open>The exceptions the modelled code can meet.\<close>

datatype exn =
    RequestException
  | ValueError
  | KeyError
  | TypeError
  | AttributeError
  | IndexError
  | OverflowError
  | OtherException

text \<open>A computation that may raise: \<open>Inl\<close> is the exception, \<open>Inr\<close> the value.\<close>

definition bind_exn :: "exn + 'a \<Rightarrow> ('a \<Rightarrow> exn + 'b) \<Rightarrow> exn + 'b" where
  "bind_exn m f = (case m of Inl e \<Rightarrow> Inl e | Inr x \<Rightarrow> f x)"

text \<open>\<^verbatim>\<open>a <= b\<close> on floats: every comparison with NaN is false.\<close>

fun float_le :: "pyfloat \<Rightarrow> pyfloat \<Rightarrow> bool" where
  "float_le NaN _ = False"
| "float_le _ NaN = False"
| "float_le NegInf _ = True"
| "float_le _ PosInf = True"
| "float_le (Finite a) (Finite b) = (a \<le> b)"
| "float_le (Finite a) NegInf = False"
| "float_le PosInf (Finite b) = False"
| "float_le PosInf NegInf = False"

text \<open>Truth value of a float: only zero is falsy (NaN and the infinities are truthy).\<close>

definition float_truthy :: "pyfloat \<Rightarrow> bool" where
  "float_truthy f = (f \<noteq> Finite 0)"

text \<open>Truth value of an object, as \<^verbatim>\<open>if x\<close> and \<^verbatim>\<open>x and y\<close> read it.\<close>

fun truthy :: "pyval \<Rightarrow> bool" where
  "truthy PNone = False"
| "truthy (PBool b) = b"
| "truthy (PInt i) = (i \<noteq> 0)"
| "truthy (PFloat f) = float_truthy f"
| "truthy (PStr s) = (s \<noteq> [])"
| "truthy (PList xs) = (xs \<noteq> [])"
| "truthy (PDict kvs) = (kvs \<noteq> [])"

text \<open>\<^verbatim>\<open>x.get(key)\<close>: only a dict has the method; a missing key gives None.\<close>

fun py_get :: "pyval \<Rightarrow> string \<Rightarrow> exn + pyval" where
  "py_get (PDict kvs) k = (case map_of kvs k of None \<Rightarrow> Inr PNone | Some v \<Rightarrow> Inr v)"
| "py_get _ k = Inl AttributeError"

text \<open>
  \<^verbatim>\<open>x[key]\<close> with a string key: a dict looks the key up (KeyError when it is missing);
  a list or a string refuses a string index and the other objects are not
  subscriptable (TypeError both).
\<close>

fun py_getitem :: "pyval \<Rightarrow> string \<Rightarrow> exn + pyval" where
  "py_getitem (PDict kvs) k = (case map_of kvs k of None \<Rightarrow> Inl KeyError | Some v \<Rightarrow> Inr v)"
| "py_getitem _ k = Inl TypeError"

text \<open>
  \<^verbatim>\<open>x[0]\<close>: the first element of a list, the first character of a string (IndexError
  when empty); a dict parsed from JSON has only string keys, so the key 0 is
  missing (KeyError); the other objects are not subscriptable.
\<close>

fun py_getitem0 :: "pyval \<Rightarrow> exn + pyval" where
  "py_getitem0 (PList xs) = (case xs of [] \<Rightarrow> Inl IndexError | x # _ \<Rightarrow> Inr x)"
| "py_getitem0 (PStr s) = (case s of [] \<Rightarrow> Inl IndexError | c # _ \<Rightarrow> Inr (PStr [c]))"
| "py_getitem0 (PDict kvs) = Inl KeyError"
| "py_getitem0 _ = Inl TypeError"

text \<open>\<^verbatim>\<open>len(x)\<close>: lists, strings and dicts have a length, nothing else has.\<close>

fun py_len :: "pyval \<Rightarrow> exn + nat" where
  "py_len (PList xs) = Inr (length xs)"
| "py_len (PStr s) = Inr (length s)"
| "py_len (PDict kvs) = Inr (length (remdups (map fst kvs)))"
| "py_len _ = Inl TypeError"

section \<open>The outside world of the geocoder\<close>

text \<open>
  What \<^verbatim>\<open>requests.get(...)\<close>, \<^verbatim>\<open>raise_for_status()\<close> and \<^verbatim>\<open>response.json()\<close>
  give together: a \<^verbatim>\<open>RequestException\<close> (connection error, timeout, HTTP error status),
  a body that is not JSON (a \<^verbatim>\<open>ValueError\<close>), or the parsed document.
\<close>

datatype http_outcome =
    Http_RequestException
  | Http_JSONDecodeError
  | Http_Json pyval

text \<open>
  The environment of one call: the value of \<^verbatim>\<open>os.getenv("GOOGLE_GEOCODING_API_KEY")\<close>,
  what each provider answers to a request, and the conversions of the builtin
  \<^verbatim>\<open>float()\<close> on strings (None: \<^verbatim>\<open>ValueError\<close>) and on integers (None:
  \<^verbatim>\<open>OverflowError\<close>), which round to the nearest double.
\<close>

record world =
  getenv_key :: "string option"
  google_get :: "string \<Rightarrow> string \<Rightarrow> http_outcome"
  nominatim_get :: "string \<Rightarrow> http_outcome"
  float_of_str :: "string \<Rightarrow> pyfloat option"
  float_of_int :: "int \<Rightarrow> pyfloat option"

text \<open>The outbound requests, in the order they are sent.\<close>

datatype call =
    Google_Call string string
  | Nominatim_Call string

text \<open>\<^verbatim>\<open>float(x)\<close>.\<close>

fun py_float :: "world \<Rightarrow> pyval \<Rightarrow> exn + pyfloat" where
  "py_float w PNone = Inl TypeError"
| "py_float w (PBool b) = Inr (Finite (if b then 1 else 0))"
| "py_float w (PInt i) = (case float_of_int w i of None \<Rightarrow> Inl OverflowError | Some f \<Rightarrow> Inr f)"
| "py_float w (PFloat f) = Inr f"
| "py_float w (PStr s) = (case float_of_str w s of None \<Rightarrow> Inl ValueError | Some f \<Rightarrow> Inr f)"
| "py_float w (PList xs) = Inl TypeError"
| "py_float w (PDict kvs) = Inl TypeError"

section \<open>services/geocoding\_service.py\<close>

type_synonym coords = "pyfloat option \<times> pyfloat option"

text \<open>\<^verbatim>\<open>-90 <= lat <= 90 and -180 <= lon <= 180\<close>\<close>

definition in_bounds :: "pyfloat \<Rightarrow> pyfloat \<Rightarrow> bool" where
  "in_bounds lat lon \<longleftrightarrow>
     float_le (Finite (- 90)) lat \<and> float_le lat (Finite 90) \<and>
     float_le (Finite (- 180)) lon \<and> float_le lon (Finite 180)"

text \<open>\<^verbatim>\<open>lat and lon and -90 <= lat <= 90 and -180 <= lon <= 180\<close>\<close>

definition accepted :: "pyfloat \<Rightarrow> pyfloat \<Rightarrow> bool" where
  "accepted lat lon \<longleftrightarrow> float_truthy lat \<and> float_truthy lon \<and> in_bounds lat lon"

text \<open>
  The \<^verbatim>\<open>except\<close> clauses of both providers: \<^verbatim>\<open>RequestException\<close>, \<^verbatim>\<open>ValueError\<close>
  and \<^verbatim>\<open>KeyError\<close> become \<^verbatim>\<open>(None, None)\<close>; any other exception leaves the function.
\<close>

definition catch_geocode :: "exn + coords \<Rightarrow> exn + coords" where
  "catch_geocode r =
     (case r of
        Inl e \<Rightarrow> if e = RequestException \<or> e = ValueError \<or> e = KeyError
                 then Inr (None, None) else Inl e
      | Inr c \<Rightarrow> Inr c)"

text \<open>
  \<^verbatim>\<open>_geocode_with_google\<close>, from \<^verbatim>\<open>data = response.json()\<close> to the two calls of
  \<^verbatim>\<open>float\<close>: None when the envelope has not the status \<^verbatim>\<open>"OK"\<close> or has no truthy
  \<^verbatim>\<open>results\<close> (which is only read when the status is right), else the first
  candidate's converted latitude and longitude.
\<close>

definition google_candidate :: "world \<Rightarrow> pyval \<Rightarrow> exn + (pyfloat \<times> pyfloat) option" where
  "google_candidate w data =
     bind_exn (py_get data ''status'') (\<lambda>status.
       if status \<noteq> PStr ''OK'' then Inr None
       else bind_exn (py_get data ''results'') (\<lambda>results.
         if \<not> truthy results then Inr None
         else bind_exn (py_getitem data ''results'') (\<lambda>rs.
              bind_exn (py_getitem0 rs) (\<lambda>result.
              bind_exn (py_getitem result ''geometry'') (\<lambda>geometry.
              bind_exn (py_getitem geometry ''location'') (\<lambda>location.
              bind_exn (py_getitem location ''lat'') (\<lambda>latv.
              bind_exn (py_float w latv) (\<lambda>lat.
              bind_exn (py_getitem location ''lng'') (\<lambda>lngv.
              bind_exn (py_float w lngv) (\<lambda>lon.
                Inr (Some (lat, lon))))))))))))"

text \<open>The check of the candidate and the two \<^verbatim>\<open>return\<close>s that follow it, the same in
  both providers.\<close>

definition check_candidate :: "(pyfloat \<times> pyfloat) option \<Rightarrow> coords" where
  "check_candidate c =
     (case c of
        None \<Rightarrow> (None, None)
      | Some (lat, lon) \<Rightarrow> if accepted lat lon then (Some lat, Some lon) else (None, None))"

definition google_parse :: "world \<Rightarrow> pyval \<Rightarrow> exn + coords" where
  "google_parse w data = bind_exn (google_candidate w data) (\<lambda>c. Inr (check_candidate c))"

text \<open>
  \<^verbatim>\<open>_geocode_with_google\<close>: without a key (unset, empty or the placeholder) nothing is
  sent. The result is the list of requests sent and the value returned or the
  exception raised.
\<close>

definition geocode_with_google :: "world \<Rightarrow> string \<Rightarrow> call list \<times> (exn + coords)" where
  "geocode_with_google w address_full =
     (case getenv_key w of
        None \<Rightarrow> ([], Inr (None, None))
      | Some api_key \<Rightarrow>
          if api_key = [] \<or> api_key = ''SUA_CHAVE_AQUI'' then ([], Inr (None, None))
          else ([Google_Call address_full api_key],
                catch_geocode
                  (case google_get w address_full api_key of
                     Http_RequestException \<Rightarrow> Inl RequestException
                   | Http_JSONDecodeError \<Rightarrow> Inl ValueError
                   | Http_Json data \<Rightarrow> google_parse w data)))"

section \<open>Strings and regular expressions\<close>

text \<open>
  The character classes of Python's \<^verbatim>\<open>re\<close> and \<^verbatim>\<open>str\<close> on code points below 256:
  \<^verbatim>\<open>\s\<close> and \<^verbatim>\<open>str.strip()\<close> use \<^verbatim>\<open>str.isspace\<close> (tab to carriage return, the
  separators 28 to 31, space, NEL and no-break space), \<^verbatim>\<open>\d\<close> the decimal digits.
\<close>

definition is_space :: "char \<Rightarrow> bool" where
  "is_space c =
     (let n = (of_char c :: nat)
      in (9 \<le> n \<and> n \<le> 13) \<or> (28 \<le> n \<and> n \<le> 31) \<or> n = 32 \<or> n = 133 \<or> n = 160)"

definition is_digit :: "char \<Rightarrow> bool" where
  "is_digit c = (let n = (of_char c :: nat) in 48 \<le> n \<and> n \<le> 57)"

definition is_upper_AZ :: "char \<Rightarrow> bool" where
  "is_upper_AZ c = (let n = (of_char c :: nat) in 65 \<le> n \<and> n \<le> 90)"

definition not_comma :: "char \<Rightarrow> bool" where
  "not_comma c = (c \<noteq> CHR '','')"

text \<open>
  The simple lower-case mapping \<^verbatim>\<open>re.IGNORECASE\<close> compares with: A to Z, and the
  Latin-1 capitals 192 to 222 but the multiplication sign 215.
\<close>

definition unicode_tolower :: "char \<Rightarrow> char" where
  "unicode_tolower c =
     (let n = (of_char c :: nat)
      in if (65 \<le> n \<and> n \<le> 90) \<or> (192 \<le> n \<and> n \<le> 222 \<and> n \<noteq> 215)
         then char_of (n + 32) else c)"

text \<open>\<^verbatim>\<open>s.strip()\<close>\<close>

definition strip :: "string \<Rightarrow> string" where
  "strip s = rev (dropWhile is_space (rev (dropWhile is_space s)))"

text \<open>
  The fragment of regular expressions the service uses: literals, character
  classes, greedy \<^verbatim>\<open>*\<close> and \<^verbatim>\<open>+\<close> on a class, sequence, alternation and
  numbered capturing groups.
\<close>

datatype regex =
    Eps
  | Chr char
  | Cls "char \<Rightarrow> bool"
  | Star "char \<Rightarrow> bool"
  | Plus "char \<Rightarrow> bool"
  | Seq regex regex
  | Alt regex regex
  | Grp nat regex

text \<open>A literal word.\<close>

fun lit :: "string \<Rightarrow> regex" where
  "lit [] = Eps"
| "lit (c # cs) = Seq (Chr c) (lit cs)"

text \<open>
  What a greedy repetition of a class leaves of the subject, longest match first:
  the backtracking order.
\<close>

definition greedy :: "nat \<Rightarrow> (char \<Rightarrow> bool) \<Rightarrow> string \<Rightarrow> string list" where
  "greedy least P s = map (\<lambda>k. drop k s) (rev [least ..< Suc (length (takeWhile P s))])"

text \<open>
  The backtracking matcher: every way the expression matches a prefix of the
  subject, as the groups captured and the rest of the subject, in the order
  Python's engine tries them (the left alternative first, the longer repetition
  first). \<open>ic\<close> is \<^verbatim>\<open>re.IGNORECASE\<close>.
\<close>

fun rx_match :: "bool \<Rightarrow> regex \<Rightarrow> (nat \<rightharpoonup> string) \<Rightarrow> string
    \<Rightarrow> ((nat \<rightharpoonup> string) \<times> string) list" where
  "rx_match ic Eps g s = [(g, s)]"
| "rx_match ic (Chr c) g s =
     (case s of
        [] \<Rightarrow> []
      | x # xs \<Rightarrow>
          if (if ic then unicode_tolower x = unicode_tolower c else x = c)
          then [(g, xs)] else [])"
| "rx_match ic (Cls P) g s = (case s of [] \<Rightarrow> [] | x # xs \<Rightarrow> if P x then [(g, xs)] else [])"
| "rx_match ic (Star P) g s = map (\<lambda>r. (g, r)) (greedy 0 P s)"
| "rx_match ic (Plus P) g s = map (\<lambda>r. (g, r)) (greedy 1 P s)"
| "rx_match ic (Seq a b) g s =
     concat (map (\<lambda>(g', s'). rx_match ic b g' s') (rx_match ic a g s))"
| "rx_match ic (Alt a b) g s = rx_match ic a g s @ rx_match ic b g s"
| "rx_match ic (Grp n a) g s =
     map (\<lambda>(g', s'). (g'(n \<mapsto> take (length s - length s') s), s')) (rx_match ic a g s)"

text \<open>\<^verbatim>\<open>re.match\<close>: the first match at the start of the subject.\<close>

definition re_match :: "bool \<Rightarrow> regex \<Rightarrow> string \<Rightarrow> (nat \<rightharpoonup> string) option" where
  "re_match ic r s = (case rx_match ic r Map.empty s of [] \<Rightarrow> None | (g, _) # _ \<Rightarrow> Some g)"

text \<open>\<^verbatim>\<open>re.search\<close>: the first match at the leftmost position that has one.\<close>

fun re_search :: "bool \<Rightarrow> regex \<Rightarrow> string \<Rightarrow> (nat \<rightharpoonup> string) option" where
  "re_search ic r [] = re_match ic r []"
| "re_search ic r (c # cs) =
     (case re_match ic r (c # cs) of Some g \<Rightarrow> Some g | None \<Rightarrow> re_search ic r cs)"

text \<open>
  \<^verbatim>\<open>m.group(n)\<close>. Every group of the three patterns below takes part in every match,
  so the empty string for a group that did not is never returned.
\<close>

definition group :: "(nat \<rightharpoonup> string) \<Rightarrow> nat \<Rightarrow> string" where
  "group g n = (case g n of None \<Rightarrow> [] | Some s \<Rightarrow> s)"

text \<open>\<^verbatim>\<open>^(?:Rua|Av\.|Avenida|Travessa|Alameda|Praca)\s+([^,]+)\<close>, the c of the last word
  with a cedilla (code point 231).\<close>

definition street_rx :: regex where
  "street_rx =
     Seq (Alt (lit ''Rua'') (Alt (lit ''Av.'') (Alt (lit ''Avenida'') (Alt (lit ''Travessa'')
            (Alt (lit ''Alameda'') (lit (''Pra'' @ [CHR 0xE7] @ ''a'')))))))
         (Seq (Plus is_space) (Grp 1 (Plus not_comma)))"

text \<open>\<^verbatim>\<open>,\s*(\d+)\<close>\<close>

definition number_rx :: regex where
  "number_rx = Seq (Chr CHR '','') (Seq (Star is_space) (Grp 1 (Plus is_digit)))"

text \<open>\<^verbatim>\<open>,\s*([^,]+)\s*-\s*([A-Z]{2})\<close>\<close>

definition city_state_rx :: regex where
  "city_state_rx =
     Seq (Chr CHR '','') (Seq (Star is_space) (Seq (Grp 1 (Plus not_comma))
       (Seq (Star is_space) (Seq (Chr CHR ''-'') (Seq (Star is_space)
         (Grp 2 (Seq (Cls is_upper_AZ) (Cls is_upper_AZ))))))))"

section \<open>The fallback provider\<close>

text \<open>The street: the pattern's group, or else the text before the first comma.\<close>

definition street_name :: "string \<Rightarrow> string" where
  "street_name address_full =
     (case re_match True street_rx address_full of
        Some m \<Rightarrow> strip (group m 1)
      | None \<Rightarrow> strip (takeWhile (\<lambda>c. c \<noteq> CHR '','') address_full))"

definition number :: "string \<Rightarrow> string option" where
  "number address_full =
     (case re_search False number_rx address_full of
        Some m \<Rightarrow> Some (group m 1)
      | None \<Rightarrow> None)"

definition city :: "string \<Rightarrow> string option" where
  "city address_full =
     (case re_search False city_state_rx address_full of
        Some m \<Rightarrow> Some (strip (group m 1))
      | None \<Rightarrow> None)"

definition state :: "string \<Rightarrow> string option" where
  "state address_full =
     (case re_search False city_state_rx address_full of
        Some m \<Rightarrow> Some (strip (group m 2))
      | None \<Rightarrow> None)"

text \<open>Truth value of a string that may be None.\<close>

definition str_truthy :: "string option \<Rightarrow> bool" where
  "str_truthy x = (case x of None \<Rightarrow> False | Some s \<Rightarrow> s \<noteq> [])"

text \<open>How an f-string renders a string that may be None.\<close>

definition fstr :: "string option \<Rightarrow> string" where
  "fstr x = (case x of None \<Rightarrow> ''None'' | Some s \<Rightarrow> s)"

text \<open>
  The query sent to the fallback provider, or None where the function returns
  \<^verbatim>\<open>(None, None)\<close> because street or city is missing.
\<close>

definition simplified_address :: "string \<Rightarrow> string option" where
  "simplified_address address_full =
     (let street = street_name address_full;
          num = number address_full;
          cty = city address_full;
          st = state address_full
      in if \<not> (street \<noteq> [] \<and> str_truthy cty) then None
         else if str_truthy num then
           (if str_truthy st
            then Some (street @ '', '' @ fstr num @ '', '' @ fstr cty @ '', '' @ fstr st @ '', Brasil'')
            else Some (street @ '', '' @ fstr num @ '', '' @ fstr cty @ '', Brasil''))
         else
           (if str_truthy st
            then Some (street @ '', '' @ fstr cty @ '', '' @ fstr st @ '', Brasil'')
            else Some (street @ '', '' @ fstr cty @ '', Brasil'')))"

text \<open>
  \<^verbatim>\<open>_geocode_with_nominatim\<close>, from \<^verbatim>\<open>data = response.json()\<close> to the two calls of
  \<^verbatim>\<open>float\<close>: None when \<^verbatim>\<open>data\<close> is falsy or empty (\<^verbatim>\<open>len(data)\<close> is only evaluated
  when \<^verbatim>\<open>data\<close> is truthy), else the first result's converted \<^verbatim>\<open>lat\<close> and \<^verbatim>\<open>lon\<close>.
\<close>

definition nominatim_candidate :: "world \<Rightarrow> pyval \<Rightarrow> exn + (pyfloat \<times> pyfloat) option" where
  "nominatim_candidate w data =
     (if \<not> truthy data then Inr None
      else bind_exn (py_len data) (\<lambda>n.
        if \<not> n > 0 then Inr None
        else bind_exn (py_getitem0 data) (\<lambda>result.
             bind_exn (py_get result ''lat'') (\<lambda>latv.
             bind_exn (py_float w latv) (\<lambda>lat.
             bind_exn (py_get result ''lon'') (\<lambda>lonv.
             bind_exn (py_float w lonv) (\<lambda>lon.
               Inr (Some (lat, lon)))))))))"

definition nominatim_parse :: "world \<Rightarrow> pyval \<Rightarrow> exn + coords" where
  "nominatim_parse w data = bind_exn (nominatim_candidate w data) (\<lambda>c. Inr (check_candidate c))"

text \<open>\<^verbatim>\<open>_geocode_with_nominatim\<close>: the requests sent and the value returned or the
  exception raised.\<close>

definition geocode_with_nominatim :: "world \<Rightarrow> string \<Rightarrow> call list \<times> (exn + coords)" where
  "geocode_with_nominatim w address_full =
     (case simplified_address address_full of
        None \<Rightarrow> ([], Inr (None, None))
      | Some q \<Rightarrow>
          ([Nominatim_Call q],
           catch_geocode
             (case nominatim_get w q of
                Http_RequestException \<Rightarrow> Inl RequestException
              | Http_JSONDecodeError \<Rightarrow> Inl ValueError
              | Http_Json data \<Rightarrow> nominatim_parse w data)))"

text \<open>Truth value of a coordinate that may be None, as \<^verbatim>\<open>if lat and lon\<close> reads it.\<close>

definition coord_truthy :: "pyfloat option \<Rightarrow> bool" where
  "coord_truthy x = (case x of None \<Rightarrow> False | Some f \<Rightarrow> float_truthy f)"

text \<open>
  \<^verbatim>\<open>geocode_address\<close>. The argument is None or a string; the fallback runs when the
  primary provider returned a falsy latitude or longitude.
\<close>

definition geocode_address :: "world \<Rightarrow> string option \<Rightarrow> call list \<times> (exn + coords)" where
  "geocode_address w address_full =
     (case address_full of
        None \<Rightarrow> ([], Inr (None, None))
      | Some a \<Rightarrow>
          if a = [] then ([], Inr (None, None))
          else (case geocode_with_google w a of
                  (sent, Inl e) \<Rightarrow> (sent, Inl e)
                | (sent, Inr (lat, lon)) \<Rightarrow>
                    if coord_truthy lat \<and> coord_truthy lon then (sent, Inr (lat, lon))
                    else (case geocode_with_nominatim w a of
                            (sent', r) \<Rightarrow> (sent @ sent', r))))"

text \<open>The requests of a run that went to the fallback provider.\<close>

definition nominatim_calls :: "call list \<Rightarrow> call list" where
  "nominatim_calls sent = filter (\<lambda>c. case c of Nominatim_Call _ \<Rightarrow> True | _ \<Rightarrow> False) sent"

definition google_calls :: "call list \<Rightarrow> call list" where
  "google_calls sent = filter (\<lambda>c. case c of Google_Call _ _ \<Rightarrow> True | _ \<Rightarrow> False) sent"

section \<open>The records of the application\<close>

text \<open>
  The rows the services and the routes read, with the columns they use. The types
  of the columns are those of the API's models: strings but for the two counts and
  the keys. The primary keys, \<^verbatim>\<open>id\<close> in the source, are \<open>id_ev\<close> and \<open>id_att\<close>.
\<close>

record host =
  email :: string

record event =
  id_ev :: int
  slug :: string
  title :: string
  host :: host
  allow_modifications :: bool
  allow_cancellations :: bool

record attendee =
  id_att :: int
  event_id :: int
  whatsapp_number :: string
  name :: string
  num_adults :: int
  num_children :: int
  comments :: string
  status :: string

section \<open>services/email\_service.py\<close>

text \<open>\<^verbatim>\<open>str(n)\<close> of an integer, as an f-string renders it.\<close>

fun str_nat :: "nat \<Rightarrow> string" where
  "str_nat n =
     (if n < 10 then [char_of (48 + n)]
      else str_nat (n div 10) @ [char_of (48 + n mod 10)])"

definition str_int :: "int \<Rightarrow> string" where
  "str_int i = (if i < 0 then ''-'' @ str_nat (nat (- i)) else str_nat (nat i))"

text \<open>
  The integer a decimal numeral denotes, read digit by digit from the last one: None
  for the empty string, a lone sign and any string that has another character.
\<close>

fun digits_value :: "string \<Rightarrow> nat option" where
  "digits_value [] = Some 0"
| "digits_value (c # cs) =
     (if is_digit c
      then (case digits_value cs of
              None \<Rightarrow> None
            | Some v \<Rightarrow> Some (10 * v + (of_char c - 48)))
      else None)"

definition decimal_value :: "string \<Rightarrow> int option" where
  "decimal_value s =
     (case s of
        [] \<Rightarrow> None
      | c # cs \<Rightarrow>
          if c = CHR ''-''
          then (if cs = [] then None
                else (case digits_value (rev cs) of
                        None \<Rightarrow> None
                      | Some v \<Rightarrow> Some (- int v)))
          else (case digits_value (rev s) of
                  None \<Rightarrow> None
                | Some v \<Rightarrow> Some (int v)))"

record mail =
  from_email :: string
  to_emails :: string
  subject :: string
  html_content :: string

definition sender_email :: string where
  "sender_email = ''ferfrancodias@gmail.com''"

text \<open>
  The message of \<^verbatim>\<open>send_rsvp_notification\<close>. The body is an f-string: the list of its
  parts, literal text and interpolated values in turn, is concatenated. The accented
  letters of the template are the code points 231 (c-cedilla), 227 (a-tilde) and
  225 (a-acute).
\<close>

definition rsvp_html :: "event \<Rightarrow> attendee \<Rightarrow> string list" where
  "rsvp_html event attendee =
     [ ''\<newline>'',
       ''            <h2>Nova Confirma'' @ [CHR 0xE7, CHR 0xE3] @ ''o de Presen'' @ [CHR 0xE7] @ ''a!</h2>\<newline>'',
       ''            <p><strong>'',
       name attendee,
       ''</strong> confirmou presen'' @ [CHR 0xE7] @ ''a no seu evento: <strong>'',
       title event,
       ''</strong></p>\<newline>'',
       ''            \<newline>'',
       ''            <h3>Detalhes:</h3>\<newline>'',
       ''            <ul>\<newline>'',
       ''                <li>Adultos: '',
       str_int (num_adults attendee),
       ''</li>\<newline>'',
       ''                <li>Crian'' @ [CHR 0xE7] @ ''as: '',
       str_int (num_children attendee),
       ''</li>\<newline>'',
       ''                <li>WhatsApp: '',
       whatsapp_number attendee,
       ''</li>\<newline>'',
       ''                '',
       (if comments attendee \<noteq> []
            then ''<li>Coment'' @ [CHR 0xE1] @ ''rios: '' @ comments attendee @ ''</li>''
            else []),
       ''\<newline>'',
       ''            </ul>\<newline>'',
       ''            \<newline>'',
       ''            <p>Veja todos os convidados no seu painel.</p>\<newline>'',
       ''        '' ]"

definition rsvp_message :: "event \<Rightarrow> attendee \<Rightarrow> mail" where
  "rsvp_message event attendee =
     \<lparr> from_email = sender_email,
       to_emails = email (host event),
       subject = ''Novo RSVP para '' @ title event,
       html_content = concat (rsvp_html event attendee) \<rparr>"

text \<open>The message of \<^verbatim>\<open>send_modification_notification\<close>.\<close>

definition modification_html :: "event \<Rightarrow> attendee \<Rightarrow> string list" where
  "modification_html event attendee =
     [ ''\<newline>'',
       ''            <h2>RSVP Modificado</h2>\<newline>'',
       ''            <p><strong>'',
       name attendee,
       ''</strong> modificou a confirma'' @ [CHR 0xE7, CHR 0xE3] @ ''o para: <strong>'',
       title event,
       ''</strong></p>\<newline>'',
       ''            \<newline>'',
       ''            <h3>Detalhes Atualizados:</h3>\<newline>'',
       ''            <ul>\<newline>'',
       ''                <li>Adultos: '',
       str_int (num_adults attendee),
       ''</li>\<newline>'',
       ''                <li>Crian'' @ [CHR 0xE7] @ ''as: '',
       str_int (num_children attendee),
       ''</li>\<newline>'',
       ''                <li>Coment'' @ [CHR 0xE1] @ ''rios: '',
       comments attendee,
       ''</li>\<newline>'',
       ''            </ul>\<newline>'',
       ''        '' ]"

definition modification_message :: "event \<Rightarrow> attendee \<Rightarrow> mail" where
  "modification_message event attendee =
     \<lparr> from_email = sender_email,
       to_emails = email (host event),
       subject = ''RSVP Modificado - '' @ title event,
       html_content = concat (modification_html event attendee) \<rparr>"

text \<open>The message of \<^verbatim>\<open>send_cancellation_notification\<close>.\<close>

definition cancellation_html :: "event \<Rightarrow> attendee \<Rightarrow> string \<Rightarrow> string list" where
  "cancellation_html event attendee reason =
     [ ''\<newline>'',
       ''            <h2>RSVP Cancelado</h2>\<newline>'',
       ''            <p><strong>'',
       name attendee,
       ''</strong> cancelou a presen'' @ [CHR 0xE7] @ ''a em: <strong>'',
       title event,
       ''</strong></p>\<newline>'',
       ''            \<newline>'',
       ''            '',
       (if reason \<noteq> [] then ''<p><strong>Motivo:</strong> '' @ reason @ ''</p>'' else []),
       ''\<newline>'',
       ''        '' ]"

definition cancellation_message :: "event \<Rightarrow> attendee \<Rightarrow> string \<Rightarrow> mail" where
  "cancellation_message event attendee reason =
     \<lparr> from_email = sender_email,
       to_emails = email (host event),
       subject = ''RSVP Cancelado - '' @ title event,
       html_content = concat (cancellation_html event attendee reason) \<rparr>"

text \<open>
  The email provider: what \<^verbatim>\<open>SendGridAPIClient(key).send(message)\<close> does with a message,
  raise an exception (any subclass of \<^verbatim>\<open>Exception\<close>) or return a response, of which
  only the status code is read.
\<close>

type_synonym sendgrid = "mail \<Rightarrow> exn + int"

text \<open>The three notifiers: the \<^verbatim>\<open>try\<close> returns True after the send, the
  \<^verbatim>\<open>except Exception\<close> returns False.\<close>

definition send_rsvp_notification :: "sendgrid \<Rightarrow> event \<Rightarrow> attendee \<Rightarrow> bool" where
  "send_rsvp_notification sg event attendee =
     (case sg (rsvp_message event attendee) of
        Inl e \<Rightarrow> False
      | Inr response \<Rightarrow> True)"

definition send_modification_notification ::
    "sendgrid \<Rightarrow> event \<Rightarrow> attendee \<Rightarrow> pyval \<Rightarrow> bool" where
  "send_modification_notification sg event attendee changes =
     (case sg (modification_message event attendee) of
        Inl e \<Rightarrow> False
      | Inr response \<Rightarrow> True)"

definition send_cancellation_notification ::
    "sendgrid \<Rightarrow> event \<Rightarrow> attendee \<Rightarrow> string \<Rightarrow> bool" where
  "send_cancellation_notification sg event attendee reason =
     (case sg (cancellation_message event attendee reason) of
        Inl e \<Rightarrow> False
      | Inr response \<Rightarrow> True)"

section \<open>routes/attendees.py\<close>

text \<open>
  The database: the two tables, in the order a query without \<^verbatim>\<open>order_by\<close> returns
  their rows.
\<close>

record database =
  events :: "event list"
  attendees :: "attendee list"

text \<open>
  What the database makes of a Python value bound to a String or an Integer
  column, in a query or at a commit: the value stored or compared, or None where it
  refuses the value and the statement raises. The request body is any JSON, so the
  values bound need not have the column's type.
\<close>

record columns =
  text_of :: "pyval \<Rightarrow> string option"
  integer_of :: "pyval \<Rightarrow> int option"

text \<open>\<^verbatim>\<open>jsonify({"error": message}), code\<close>\<close>

definition error_response :: "string \<Rightarrow> nat \<Rightarrow> pyval \<times> nat" where
  "error_response message code = (PDict [(''error'', PStr message)], code)"

text \<open>\<^verbatim>\<open>Event.query.filter_by(slug=...).first()\<close>\<close>

definition first_event :: "database \<Rightarrow> string \<Rightarrow> event option" where
  "first_event db s = find (\<lambda>e. slug e = s) (events db)"

text \<open>\<^verbatim>\<open>Attendee.query.filter_by(event_id=..., whatsapp_number=...).first()\<close>\<close>

definition is_rsvp :: "int \<Rightarrow> string \<Rightarrow> attendee \<Rightarrow> bool" where
  "is_rsvp ev wa a \<longleftrightarrow> event_id a = ev \<and> whatsapp_number a = wa"

definition first_attendee :: "database \<Rightarrow> int \<Rightarrow> string \<Rightarrow> attendee option" where
  "first_attendee db ev wa = find (is_rsvp ev wa) (attendees db)"

text \<open>The row the query returned is the one the commit writes back.\<close>

fun replace_first :: "('a \<Rightarrow> bool) \<Rightarrow> 'a \<Rightarrow> 'a list \<Rightarrow> 'a list" where
  "replace_first P y [] = []"
| "replace_first P y (x # xs) = (if P x then y # xs else x # replace_first P y xs)"

text \<open>
  \<^verbatim>\<open>if key in data: attendee.field = data[key]\<close>, for a body that is a dict (the two
  \<^verbatim>\<open>data.get\<close> before have raised on anything else): the old value when the key is
  missing, else what the column makes of the new one.
\<close>

definition updated :: "(pyval \<Rightarrow> 'a option) \<Rightarrow> pyval \<Rightarrow> string \<Rightarrow> 'a \<Rightarrow> 'a option" where
  "updated column data key old =
     (case data of
        PDict kvs \<Rightarrow> (case map_of kvs key of None \<Rightarrow> Some old | Some v \<Rightarrow> column v)
      | _ \<Rightarrow> Some old)"

text \<open>
  The four updates of \<^verbatim>\<open>modify_rsvp\<close> and the reactivation of a cancelled RSVP; None
  where the database refuses one of the new values.
\<close>

definition apply_changes :: "columns \<Rightarrow> pyval \<Rightarrow> attendee \<Rightarrow> attendee option" where
  "apply_changes cols data attendee =
     (case updated (text_of cols) data ''name'' (name attendee) of
        None \<Rightarrow> None
      | Some n \<Rightarrow>
     (case updated (integer_of cols) data ''num_adults'' (num_adults attendee) of
        None \<Rightarrow> None
      | Some na \<Rightarrow>
     (case updated (integer_of cols) data ''num_children'' (num_children attendee) of
        None \<Rightarrow> None
      | Some nc \<Rightarrow>
     (case updated (text_of cols) data ''comments'' (comments attendee) of
        None \<Rightarrow> None
      | Some c \<Rightarrow>
          Some (attendee\<lparr> name := n, num_adults := na, num_children := nc, comments := c,
                  status := (if status attendee = ''cancelled'' then ''confirmed''
                             else status attendee) \<rparr>)))))"

text \<open>The body of the answer 200.\<close>

definition updated_response :: "attendee \<Rightarrow> pyval \<times> nat" where
  "updated_response attendee =
     (PDict [(''message'', PStr ''RSVP updated successfully''),
             (''attendee'', PDict [(''id'', PInt (id_att attendee)),
                                   (''name'', PStr (name attendee)),
                                   (''num_adults'', PInt (num_adults attendee)),
                                   (''num_children'', PInt (num_children attendee)),
                                   (''comments'', PStr (comments attendee)),
                                   (''status'', PStr (status attendee))])],
      200)"

text \<open>
  \<^verbatim>\<open>modify_rsvp\<close>: the answer (body and status code) or the exception that leaves the
  handler, and the database afterwards. A statement the database refuses raises,
  and nothing is committed.
\<close>

definition modify_rsvp :: "columns \<Rightarrow> database \<Rightarrow> pyval \<Rightarrow> (exn + pyval \<times> nat) \<times> database" where
  "modify_rsvp cols db data =
     (case py_get data ''event_slug'' of
        Inl e \<Rightarrow> (Inl e, db)
      | Inr event_slug \<Rightarrow>
     (case py_get data ''whatsapp_number'' of
        Inl e \<Rightarrow> (Inl e, db)
      | Inr whatsapp \<Rightarrow>
     (if \<not> truthy event_slug \<or> \<not> truthy whatsapp
      then (Inr (error_response ''Event slug and WhatsApp number are required'' 400), db)
      else
     (case text_of cols event_slug of
        None \<Rightarrow> (Inl OtherException, db)
      | Some s \<Rightarrow>
     (case first_event db s of
        None \<Rightarrow> (Inr (error_response ''Event not found'' 404), db)
      | Some event \<Rightarrow>
     (if \<not> allow_modifications event
      then (Inr (error_response ''Modifications are not allowed for this event'' 403), db)
      else
     (case text_of cols whatsapp of
        None \<Rightarrow> (Inl OtherException, db)
      | Some wa \<Rightarrow>
     (case first_attendee db (id_ev event) wa of
        None \<Rightarrow> (Inr (error_response ''RSVP not found'' 404), db)
      | Some attendee \<Rightarrow>
     (case apply_changes cols data attendee of
        None \<Rightarrow> (Inl OtherException, db)
      | Some attendee' \<Rightarrow>
          (Inr (updated_response attendee'),
           db\<lparr> attendees :=
                 replace_first (is_rsvp (id_ev event) wa) attendee' (attendees db) \<rparr>))))))))))"

section \<open>Example worlds\<close>

text \<open>
  A fragment of \<^verbatim>\<open>float()\<close>: the numerals the examples use, each with the value it
  denotes (read as a real, without the rounding to a double), \<^verbatim>\<open>ValueError\<close> on every
  other string, and the integers unrounded.
\<close>

definition example_float_of_str :: "string \<Rightarrow> pyfloat option" where
  "example_float_of_str =
     map_of [(''-22.9068'', Finite (- 22.9068)), (''-43.1729'', Finite (- 43.1729)),
             (''200'', Finite 200), (''50'', Finite 50)]"

definition example_float_of_int :: "int \<Rightarrow> pyfloat option" where
  "example_float_of_int i = Some (Finite (of_int i))"

text \<open>A world whose providers give the same answer to every request.\<close>

definition example_world :: "string option \<Rightarrow> http_outcome \<Rightarrow> http_outcome \<Rightarrow> world" where
  "example_world key google nominatim =
     \<lparr> getenv_key = key,
       google_get = (\<lambda>address api_key. google),
       nominatim_get = (\<lambda>q. nominatim),
       float_of_str = example_float_of_str,
       float_of_int = example_float_of_int \<rparr>"

text \<open>A success envelope of the primary provider with one candidate.\<close>

definition google_ok :: "pyval \<Rightarrow> pyval \<Rightarrow> pyval" where
  "google_ok lat lng =
     PDict
       [(''status'', PStr ''OK''),
        (''results'', PList
           [PDict [(''geometry'', PDict [(''location'', PDict [(''lat'', lat), (''lng'', lng)])]),
                   (''formatted_address'', PStr ''Brasil'')]])]"

text \<open>An answer of the fallback provider with one result.\<close>

definition nominatim_ok :: "pyval \<Rightarrow> pyval \<Rightarrow> pyval" where
  "nominatim_ok lat lon = PList [PDict [(''lat'', lat), (''lon'', lon)]]"

definition rua_das_flores :: string where
  "rua_das_flores = ''Rua das Flores, 123, Centro, Rio de Janeiro - RJ, CEP 20000-000, Brasil''"

definition marco_zero :: string where
  "marco_zero = ''Rodovia Juscelino Kubitschek, Marco Zero, Macapa - AP, Brasil''"

definition avenida_paulista :: string where
  "avenida_paulista = ''Avenida Paulista 1578, Sao Paulo''"

text \<open>The primary provider finds a place on the equator; the fallback finds nothing.\<close>

definition equator_world :: world where
  "equator_world =
     example_world (Some ''AIzaSyExample'')
       (Http_Json (google_ok (PFloat (Finite 0)) (PFloat (Finite (- 51.0705)))))
       (Http_Json (PList []))"


text \<open>The primary provider finds Sao Paulo.\<close>

definition paulista_world :: world where
  "paulista_world =
     example_world (Some ''AIzaSyExample'')
       (Http_Json (google_ok (PFloat (Finite (- 23.5614))) (PFloat (Finite (- 46.6559)))))
       (Http_Json (PList []))"

text \<open>No key for the primary provider; the fallback finds Rio de Janeiro.\<close>

definition no_key_world :: world where
  "no_key_world =
     example_world None Http_RequestException
       (Http_Json (nominatim_ok (PStr ''-22.9068'') (PStr ''-43.1729'')))"

text \<open>No key for the primary provider; the fallback answers with one result that has
  no \<^verbatim>\<open>lat\<close>.\<close>

definition missing_lat_world :: world where
  "missing_lat_world =
     example_world None Http_RequestException
       (Http_Json (PList [PDict [(''display_name'', PStr ''Rio de Janeiro'')]]))"

section \<open>Example rows, requests and providers\<close>

definition example_event :: event where
  "example_event =
     \<lparr> id_ev = 1, slug = ''abc123'', title = ''Festa Junina'',
       host = \<lparr> email = ''host@x.com'' \<rparr>,
       allow_modifications = True, allow_cancellations = True \<rparr>"

definition maria :: attendee where
  "maria =
     \<lparr> id_att = 7, event_id = 1, whatsapp_number = ''5521988888888'', name = ''Maria'',
       num_adults = 2, num_children = 1, comments = [], status = ''cancelled'' \<rparr>"

definition example_database :: database where
  "example_database = \<lparr> events = [example_event], attendees = [maria] \<rparr>"

text \<open>A database that takes strings in String columns and integers in Integer columns,
  and refuses everything else.\<close>

definition example_columns :: columns where
  "example_columns =
     \<lparr> text_of = (\<lambda>v. case v of PStr s \<Rightarrow> Some s | _ \<Rightarrow> None),
       integer_of = (\<lambda>v. case v of PInt i \<Rightarrow> Some i | _ \<Rightarrow> None) \<rparr>"

text \<open>Maria, after the example request below.\<close>

definition maria_modified :: attendee where
  "maria_modified = maria\<lparr> num_adults := 3, status := ''confirmed'' \<rparr>"

definition example_request :: pyval where
  "example_request =
     PDict [(''event_slug'', PStr ''abc123''), (''whatsapp_number'', PStr ''5521988888888''),
            (''num_adults'', PInt 3)]"

text \<open>An email provider that accepts every message, and one that rejects every message.\<close>

definition sendgrid_accepts :: sendgrid where
  "sendgrid_accepts message = Inr 202"

definition sendgrid_rejects :: sendgrid where
  "sendgrid_rejects message = Inl OtherException"

section \<open>Helper lemmas\<close>

lemma simplified_address_rua_das_flores:
  "simplified_address rua_das_flores = Some ''das Flores, 123, Rio de Janeiro, RJ, Brasil''"
  unfolding rua_das_flores_def by code_simp

lemma simplified_address_marco_zero:
  "simplified_address marco_zero = Some ''Rodovia Juscelino Kubitschek, Macapa, AP, Brasil''"
  unfolding marco_zero_def by code_simp

lemma street_name_avenida_paulista: "street_name avenida_paulista = ''Paulista 1578''"
  unfolding avenida_paulista_def by code_simp

lemma city_avenida_paulista: "city avenida_paulista = None"
  unfolding avenida_paulista_def by code_simp

lemma google_unconfigured:
  "getenv_key w = None \<or> getenv_key w = Some [] \<or> getenv_key w = Some ''SUA_CHAVE_AQUI''
   \<Longrightarrow> geocode_with_google w a = ([], Inr (None, None))"
  by (auto simp: geocode_with_google_def)

lemma google_configured:
  "getenv_key w = Some k \<Longrightarrow> k \<noteq> [] \<Longrightarrow> k \<noteq> ''SUA_CHAVE_AQUI'' \<Longrightarrow>
   geocode_with_google w a =
     ([Google_Call a k],
      catch_geocode
        (case google_get w a k of
           Http_RequestException \<Rightarrow> Inl RequestException
         | Http_JSONDecodeError \<Rightarrow> Inl ValueError
         | Http_Json data \<Rightarrow> google_parse w data))"
  by (simp add: geocode_with_google_def)

lemma google_sends_to_google: "nominatim_calls (fst (geocode_with_google w a)) = []"
  by (simp add: geocode_with_google_def nominatim_calls_def split: option.splits)

lemma nominatim_sends_to_nominatim: "google_calls (fst (geocode_with_nominatim w a)) = []"
  by (simp add: geocode_with_nominatim_def google_calls_def split: option.splits)

lemma nominatim_without_query:
  "simplified_address a = None \<Longrightarrow> geocode_with_nominatim w a = ([], Inr (None, None))"
  by (simp add: geocode_with_nominatim_def)

lemma nominatim_with_query:
  "simplified_address a = Some q \<Longrightarrow>
   geocode_with_nominatim w a =
     ([Nominatim_Call q],
      catch_geocode
        (case nominatim_get w q of
           Http_RequestException \<Rightarrow> Inl RequestException
         | Http_JSONDecodeError \<Rightarrow> Inl ValueError
         | Http_Json data \<Rightarrow> nominatim_parse w data))"
  by (simp add: geocode_with_nominatim_def)

lemma simplified_address_None:
  "simplified_address a = None \<longleftrightarrow> \<not> (street_name a \<noteq> [] \<and> str_truthy (city a))"
  by (simp add: simplified_address_def Let_def)

lemma geocode_address_fallback:
  "a \<noteq> [] \<Longrightarrow> geocode_with_google w a = (sent, Inr (None, None)) \<Longrightarrow>
   geocode_address w (Some a) =
     (sent @ fst (geocode_with_nominatim w a), snd (geocode_with_nominatim w a))"
  by (simp add: geocode_address_def coord_truthy_def split: prod.splits)

lemma google_candidate_google_ok:
  "google_candidate w (google_ok (PFloat lat) (PFloat lon)) = Inr (Some (lat, lon))"
  by (simp add: google_candidate_def google_ok_def bind_exn_def)


lemma nominatim_candidate_rio:
  "float_of_str w = example_float_of_str \<Longrightarrow>
   nominatim_candidate w (nominatim_ok (PStr ''-22.9068'') (PStr ''-43.1729''))
     = Inr (Some (Finite (- 22.9068), Finite (- 43.1729)))"
  by (simp add: nominatim_candidate_def nominatim_ok_def bind_exn_def example_float_of_str_def)

lemma str_int_examples: "str_int 2 = ''2''" "str_int 1 = ''1''"
  by code_simp+

lemma digit_char:
  assumes "(d :: nat) < 10"
  shows "is_digit (char_of (48 + d))" and "of_char (char_of (48 + d)) - 48 = d"
    and "char_of (48 + d) \<noteq> CHR ''-''"
proof -
  have v: "(of_char (char_of (48 + d)) :: nat) = 48 + d"
    using assms by simp
  show "is_digit (char_of (48 + d))"
    unfolding is_digit_def Let_def v using assms by simp
  show "of_char (char_of (48 + d)) - 48 = d"
    unfolding v by simp
  have "of_char (char_of (48 + d)) \<noteq> (of_char CHR ''-'' :: nat)"
    unfolding v by simp
  then show "char_of (48 + d) \<noteq> CHR ''-''"
    by metis
qed

lemma digits_value_str_nat: "digits_value (rev (str_nat n)) = Some n"
proof (induction n rule: str_nat.induct)
  case (1 n)
  show ?case
  proof (cases "n < 10")
    case True
    then show ?thesis
      using digit_char[of n] by (simp add: str_nat.simps[of n])
  next
    case False
    have d: "n mod 10 < 10"
      by simp
    from False 1 have "digits_value (rev (str_nat (n div 10))) = Some (n div 10)"
      by simp
    then show ?thesis
      using False digit_char[OF d] by (simp add: str_nat.simps[of n])
  qed
qed

lemma str_nat_first: "\<exists>c cs. str_nat n = c # cs \<and> c \<noteq> CHR ''-''"
proof (induction n rule: str_nat.induct)
  case (1 n)
  show ?case
  proof (cases "n < 10")
    case True
    then show ?thesis
      using digit_char[of n] by (simp add: str_nat.simps[of n])
  next
    case False
    with 1 obtain c cs where "str_nat (n div 10) = c # cs" and "c \<noteq> CHR ''-''"
      by blast
    then show ?thesis
      using False by (simp add: str_nat.simps[of n])
  qed
qed

lemma decimal_value_str_int: "decimal_value (str_int i) = Some i"
proof (cases "i < 0")
  case True
  obtain c cs where "str_nat (nat (- i)) = c # cs"
    using str_nat_first by blast
  then show ?thesis
    using True digits_value_str_nat[of "nat (- i)"]
    by (simp add: decimal_value_def str_int_def)
next
  case False
  obtain c cs where "str_nat (nat i) = c # cs" and "c \<noteq> CHR ''-''"
    using str_nat_first by blast
  then show ?thesis
    using False digits_value_str_nat[of "nat i"]
    by (simp add: decimal_value_def str_int_def)
qed

lemma sublist_concat_item:
  "drop k xss = (p @ x) # y # (z @ q) # rest \<Longrightarrow> sublist (x @ y @ z) (concat xss)"
proof -
  assume "drop k xss = (p @ x) # y # (z @ q) # rest"
  then have "concat (drop k xss) = p @ (x @ y @ z) @ (q @ concat rest)"
    by simp
  moreover have "concat xss = concat (take k xss) @ concat (drop k xss)"
    by (metis append_take_drop_id concat_append)
  ultimately have "concat xss = (concat (take k xss) @ p) @ (x @ y @ z) @ (q @ concat rest)"
    by simp
  then show ?thesis
    by (metis sublist_appendI)
qed

lemma sublist_concat: "x \<in> set xss \<Longrightarrow> sublist x (concat xss)"
proof -
  assume "x \<in> set xss"
  then obtain ps ss where "xss = ps @ x # ss"
    by (auto simp: in_set_conv_decomp)
  then have "concat xss = concat ps @ x @ concat ss"
    by simp
  then show ?thesis
    by (metis sublist_appendI)
qed

lemma suffix_concat_drop: "suffix (concat (drop k xss)) (concat xss)"
proof -
  have "concat xss = concat (take k xss) @ concat (drop k xss)"
    by (metis append_take_drop_id concat_append)
  then show ?thesis
    by (rule suffixI)
qed

lemma find_replace_first:
  "find P xs = Some x \<Longrightarrow> P y \<Longrightarrow> find P (replace_first P y xs) = Some y"
  by (induction xs) (auto split: if_splits)

lemma apply_changes_keeps:
  "apply_changes cols data a = Some a' \<Longrightarrow>
     id_att a' = id_att a \<and> event_id a' = event_id a \<and>
     whatsapp_number a' = whatsapp_number a \<and>
     status a' = (if status a = ''cancelled'' then ''confirmed'' else status a)"
  by (auto simp: apply_changes_def split: option.splits)

section \<open>The geocoder\<close>

text \<open>
  C1 fails on the code. With the key configured, the primary provider answers an
  address on the equator with the first candidate (0.0, -51.0705), which is within
  bounds. The test \<^verbatim>\<open>lat and lon\<close> reads the latitude 0.0 as false, so the pair is
  not returned: the fallback provider is called, and as it finds nothing here the
  result is \<^verbatim>\<open>(None, None)\<close>.
\<close>

theorem geocode_address_rejects_equator:
  "getenv_key equator_world = Some ''AIzaSyExample'' \<and>
   google_get equator_world marco_zero ''AIzaSyExample''
     = Http_Json (google_ok (PFloat (Finite 0)) (PFloat (Finite (- 51.0705)))) \<and>
   google_candidate equator_world (google_ok (PFloat (Finite 0)) (PFloat (Finite (- 51.0705))))
     = Inr (Some (Finite 0, Finite (- 51.0705))) \<and>
   in_bounds (Finite 0) (Finite (- 51.0705)) \<and>
   geocode_address equator_world (Some marco_zero)
     = ([Google_Call marco_zero ''AIzaSyExample'',
         Nominatim_Call ''Rodovia Juscelino Kubitschek, Macapa, AP, Brasil''],
        Inr (None, None))"
proof -
  have k: "getenv_key equator_world = Some ''AIzaSyExample''"
    by (simp add: equator_world_def example_world_def)
  have r: "google_get equator_world marco_zero ''AIzaSyExample''
      = Http_Json (google_ok (PFloat (Finite 0)) (PFloat (Finite (- 51.0705))))"
    by (simp add: equator_world_def example_world_def)
  have g: "geocode_with_google equator_world marco_zero
      = ([Google_Call marco_zero ''AIzaSyExample''], Inr (None, None))"
    by (simp add: google_configured[OF k] r google_parse_def google_candidate_google_ok
        bind_exn_def check_candidate_def accepted_def float_truthy_def catch_geocode_def)
  have n: "geocode_with_nominatim equator_world marco_zero
      = ([Nominatim_Call ''Rodovia Juscelino Kubitschek, Macapa, AP, Brasil''], Inr (None, None))"
    by (simp add: nominatim_with_query[OF simplified_address_marco_zero] equator_world_def
        example_world_def nominatim_parse_def nominatim_candidate_def bind_exn_def
        check_candidate_def catch_geocode_def)
  have ne: "marco_zero \<noteq> []"
    by (simp add: marco_zero_def)
  have b: "in_bounds (Finite 0) (Finite (- 51.0705))"
    by (simp add: in_bounds_def)
  show ?thesis
    using k r b by (simp add: geocode_address_fallback[OF ne g] n google_candidate_google_ok)
qed

text \<open>
  C2 fails on the code. Without a key for the primary provider, when the fallback
  provider answers with a result that has no \<^verbatim>\<open>lat\<close> field, \<^verbatim>\<open>float(None)\<close> raises a
  \<^verbatim>\<open>TypeError\<close>, which no \<^verbatim>\<open>except\<close> clause catches: \<open>geocode_address\<close> raises it to
  its caller.
\<close>

theorem geocode_address_raises_TypeError:
  "geocode_address missing_lat_world (Some rua_das_flores)
     = ([Nominatim_Call ''das Flores, 123, Rio de Janeiro, RJ, Brasil''], Inl TypeError)"
proof -
  have g: "geocode_with_google missing_lat_world rua_das_flores = ([], Inr (None, None))"
    by (simp add: google_unconfigured missing_lat_world_def example_world_def)
  have n: "geocode_with_nominatim missing_lat_world rua_das_flores
      = ([Nominatim_Call ''das Flores, 123, Rio de Janeiro, RJ, Brasil''], Inl TypeError)"
    by (simp add: nominatim_with_query[OF simplified_address_rua_das_flores]
        missing_lat_world_def example_world_def nominatim_parse_def nominatim_candidate_def
        bind_exn_def catch_geocode_def)
  have ne: "rua_das_flores \<noteq> []"
    by (simp add: rua_das_flores_def)
  show ?thesis
    by (simp add: geocode_address_fallback[OF ne g] n)
qed

text \<open>
  C3. For the address "Rua das Flores, 123, Centro, Rio de Janeiro - RJ, CEP 20000-000,
  Brasil" the simplification of the fallback path gives exactly the query
  "das Flores, 123, Rio de Janeiro, RJ, Brasil", and this is the one request the
  fallback sends, whatever the world.
\<close>

theorem simplified_query_rua_das_flores:
  "simplified_address
     ''Rua das Flores, 123, Centro, Rio de Janeiro - RJ, CEP 20000-000, Brasil''
     = Some ''das Flores, 123, Rio de Janeiro, RJ, Brasil'' \<and>
   fst (geocode_with_nominatim w
          ''Rua das Flores, 123, Centro, Rio de Janeiro - RJ, CEP 20000-000, Brasil'')
     = [Nominatim_Call ''das Flores, 123, Rio de Janeiro, RJ, Brasil'']"
  using simplified_address_rua_das_flores
  by (simp add: geocode_with_nominatim_def rua_das_flores_def)



text \<open>
  C5, as amended. For an address from which the fallback path cannot extract both a
  street and a city, the fallback returns \<^verbatim>\<open>(None, None)\<close> without a request, so
  \<open>geocode_address\<close> never calls the secondary provider; and \<open>geocode_address\<close>
  returns \<^verbatim>\<open>(None, None)\<close> whenever the primary provider returns no coordinates.
\<close>

theorem fallback_needs_street_and_city:
  assumes "\<not> (street_name a \<noteq> [] \<and> str_truthy (city a))"
  shows "geocode_with_nominatim w a = ([], Inr (None, None)) \<and>
         nominatim_calls (fst (geocode_address w (Some a))) = [] \<and>
         (snd (geocode_with_google w a) = Inr (None, None)
          \<longrightarrow> snd (geocode_address w (Some a)) = Inr (None, None))"
proof -
  have n: "geocode_with_nominatim w a = ([], Inr (None, None))"
    using assms by (simp add: nominatim_without_query simplified_address_None)
  have "nominatim_calls (fst (geocode_address w (Some a))) = []"
    using google_sends_to_google[of w a]
    by (auto simp: geocode_address_def n nominatim_calls_def split: prod.splits sum.splits)
  moreover have "snd (geocode_with_google w a) = Inr (None, None)
      \<longrightarrow> snd (geocode_address w (Some a)) = Inr (None, None)"
    by (auto simp: geocode_address_def n coord_truthy_def split: prod.splits)
  ultimately show ?thesis
    using n by simp
qed

theorem fallback_needs_street_and_city_witness:
  "\<not> (street_name avenida_paulista \<noteq> [] \<and> str_truthy (city avenida_paulista)) \<and>
   snd (geocode_with_google no_key_world avenida_paulista) = Inr (None, None) \<and>
   geocode_with_nominatim no_key_world avenida_paulista = ([], Inr (None, None)) \<and>
   nominatim_calls (fst (geocode_address no_key_world (Some avenida_paulista))) = [] \<and>
   snd (geocode_address no_key_world (Some avenida_paulista)) = Inr (None, None)"
proof -
  have h: "\<not> (street_name avenida_paulista \<noteq> [] \<and> str_truthy (city avenida_paulista))"
    by (simp add: city_avenida_paulista str_truthy_def)
  have g: "geocode_with_google no_key_world avenida_paulista = ([], Inr (None, None))"
    by (simp add: google_unconfigured no_key_world_def example_world_def)
  have g': "snd (geocode_with_google no_key_world avenida_paulista) = Inr (None, None)"
    by (simp add: g)
  note t = fallback_needs_street_and_city[OF h, of no_key_world]
  from t g' h show ?thesis
    by blast
qed

text \<open>
  C5 as stated fails when the primary provider succeeds: no city can be extracted
  from "Avenida Paulista 1578, Sao Paulo", yet \<open>geocode_address\<close> returns the
  coordinates of the primary provider and not \<^verbatim>\<open>(None, None)\<close>.
\<close>

theorem fallback_not_reached_counterexample:
  "\<not> (street_name avenida_paulista \<noteq> [] \<and> str_truthy (city avenida_paulista)) \<and>
   geocode_address paulista_world (Some avenida_paulista)
     = ([Google_Call avenida_paulista ''AIzaSyExample''],
        Inr (Some (Finite (- 23.5614)), Some (Finite (- 46.6559))))"
proof -
  have k: "getenv_key paulista_world = Some ''AIzaSyExample''"
    by (simp add: paulista_world_def example_world_def)
  have r: "google_get paulista_world avenida_paulista ''AIzaSyExample''
      = Http_Json (google_ok (PFloat (Finite (- 23.5614))) (PFloat (Finite (- 46.6559))))"
    by (simp add: paulista_world_def example_world_def)
  have g: "geocode_with_google paulista_world avenida_paulista
      = ([Google_Call avenida_paulista ''AIzaSyExample''],
         Inr (Some (Finite (- 23.5614)), Some (Finite (- 46.6559))))"
    by (simp add: google_configured[OF k] r google_parse_def google_candidate_google_ok
        bind_exn_def check_candidate_def accepted_def float_truthy_def in_bounds_def
        catch_geocode_def)
  have ne: "avenida_paulista \<noteq> []"
    by (simp add: avenida_paulista_def)
  have "geocode_address paulista_world (Some avenida_paulista)
     = ([Google_Call avenida_paulista ''AIzaSyExample''],
        Inr (Some (Finite (- 23.5614)), Some (Finite (- 46.6559))))"
    by (simp add: geocode_address_def g ne coord_truthy_def float_truthy_def)
  then show ?thesis
    by (simp add: city_avenida_paulista str_truthy_def)
qed

text \<open>
  C6. When the key of the primary provider is absent from the environment or is the
  placeholder, \<open>geocode_with_google\<close> sends no request and returns \<^verbatim>\<open>(None, None)\<close>;
  no run of \<open>geocode_address\<close> sends a request to the primary provider, and for a
  non-empty address \<open>geocode_address\<close> is the fallback provider's run.
\<close>

theorem unconfigured_key_skips_google:
  assumes "getenv_key w = None \<or> getenv_key w = Some ''SUA_CHAVE_AQUI''"
  shows "geocode_with_google w a = ([], Inr (None, None)) \<and>
         google_calls (fst (geocode_address w x)) = [] \<and>
         (a \<noteq> [] \<longrightarrow> geocode_address w (Some a) = geocode_with_nominatim w a)"
proof -
  have g: "\<And>b. geocode_with_google w b = ([], Inr (None, None))"
    using assms by (auto simp: google_unconfigured)
  have "google_calls (fst (geocode_address w x)) = []"
    using nominatim_sends_to_nominatim[of w]
    by (cases x) (auto simp: geocode_address_def g coord_truthy_def google_calls_def
        split: prod.splits)
  moreover have "a \<noteq> [] \<longrightarrow> geocode_address w (Some a) = geocode_with_nominatim w a"
    by (simp add: geocode_address_def g coord_truthy_def split: prod.splits)
  ultimately show ?thesis
    using g by simp
qed

theorem unconfigured_key_skips_google_witness:
  "getenv_key no_key_world = None \<and> rua_das_flores \<noteq> [] \<and>
   geocode_with_google no_key_world rua_das_flores = ([], Inr (None, None)) \<and>
   google_calls (fst (geocode_address no_key_world (Some rua_das_flores))) = [] \<and>
   geocode_address no_key_world (Some rua_das_flores)
     = ([Nominatim_Call ''das Flores, 123, Rio de Janeiro, RJ, Brasil''],
        Inr (Some (Finite (- 22.9068)), Some (Finite (- 43.1729))))"
proof -
  have h: "getenv_key no_key_world = None \<or> getenv_key no_key_world = Some ''SUA_CHAVE_AQUI''"
    by (simp add: no_key_world_def example_world_def)
  have k: "getenv_key no_key_world = None"
    by (simp add: no_key_world_def example_world_def)
  have ne: "rua_das_flores \<noteq> []"
    by (simp add: rua_das_flores_def)
  have r: "nominatim_get no_key_world ''das Flores, 123, Rio de Janeiro, RJ, Brasil''
      = Http_Json (nominatim_ok (PStr ''-22.9068'') (PStr ''-43.1729''))"
    by (simp add: no_key_world_def example_world_def)
  have fs: "float_of_str no_key_world = example_float_of_str"
    by (simp add: no_key_world_def example_world_def)
  have n: "geocode_with_nominatim no_key_world rua_das_flores
      = ([Nominatim_Call ''das Flores, 123, Rio de Janeiro, RJ, Brasil''],
         Inr (Some (Finite (- 22.9068)), Some (Finite (- 43.1729))))"
    by (simp add: nominatim_with_query[OF simplified_address_rua_das_flores] r
        nominatim_parse_def nominatim_candidate_rio[OF fs] bind_exn_def
        check_candidate_def accepted_def float_truthy_def in_bounds_def catch_geocode_def)
  note t = unconfigured_key_skips_google
    [OF h, of rua_das_flores "Some rua_das_flores"]
  from t have c1: "geocode_with_google no_key_world rua_das_flores = ([], Inr (None, None))"
    and c2: "google_calls (fst (geocode_address no_key_world (Some rua_das_flores))) = []"
    and c3: "geocode_address no_key_world (Some rua_das_flores)
      = geocode_with_nominatim no_key_world rua_das_flores"
    using ne by blast+
  from c3 n have c4: "geocode_address no_key_world (Some rua_das_flores)
      = ([Nominatim_Call ''das Flores, 123, Rio de Janeiro, RJ, Brasil''],
         Inr (Some (Finite (- 22.9068)), Some (Finite (- 43.1729))))"
    by (rule trans)
  from k ne c1 c2 c4 show ?thesis
    by blast
qed

text \<open>
  C7. For an absent (None) or empty address \<open>geocode_address\<close> returns
  \<^verbatim>\<open>(None, None)\<close> and sends no request to either provider.
\<close>

theorem geocode_empty_address:
  "geocode_address w None = ([], Inr (None, None)) \<and>
   geocode_address w (Some []) = ([], Inr (None, None))"
  by (simp add: geocode_address_def)

section \<open>The notifier\<close>

text \<open>
  C8. In the body of the creation notification the list ends with the WhatsApp item
  when the comments are empty: nothing but white space stands between that item and
  the end of the list, so there is no comments item. When the comments are not empty
  the WhatsApp item is followed by the item "Comentarios: " with the comments
  verbatim. In both cases the body contains the attendee's name, the event's title
  and the WhatsApp number, and the two items "Adultos: " and "Criancas: ", each with
  a numeral whose decimal value is the count.
\<close>

theorem rsvp_body_comments:
  "(comments a = [] \<longrightarrow>
      suffix (''<li>WhatsApp: '' @ whatsapp_number a
              @ ''</li>\<newline>                \<newline>            </ul>\<newline>''
              @ ''            \<newline>''
              @ ''            <p>Veja todos os convidados no seu painel.</p>\<newline>        '')
        (html_content (rsvp_message e a))) \<and>
   (comments a \<noteq> [] \<longrightarrow>
      suffix (''<li>WhatsApp: '' @ whatsapp_number a
              @ ''</li>\<newline>                <li>Coment'' @ [CHR 0xE1] @ ''rios: ''
              @ comments a @ ''</li>\<newline>            </ul>\<newline>''
              @ ''            \<newline>''
              @ ''            <p>Veja todos os convidados no seu painel.</p>\<newline>        '')
        (html_content (rsvp_message e a))) \<and>
   sublist (name a) (html_content (rsvp_message e a)) \<and>
   sublist (title e) (html_content (rsvp_message e a)) \<and>
   sublist (str_int (num_adults a)) (html_content (rsvp_message e a)) \<and>
   sublist (str_int (num_children a)) (html_content (rsvp_message e a)) \<and>
   sublist (whatsapp_number a) (html_content (rsvp_message e a)) \<and>
   sublist (''<li>Adultos: '' @ str_int (num_adults a) @ ''</li>'')
     (html_content (rsvp_message e a)) \<and>
   decimal_value (str_int (num_adults a)) = Some (num_adults a) \<and>
   sublist (''<li>Crian'' @ [CHR 0xE7] @ ''as: '' @ str_int (num_children a) @ ''</li>'')
     (html_content (rsvp_message e a)) \<and>
   decimal_value (str_int (num_children a)) = Some (num_children a)"
proof -
  have "suffix (concat (drop 16 (rsvp_html e a))) (html_content (rsvp_message e a))"
    by (simp add: rsvp_message_def suffix_concat_drop)
  then have s: "suffix (drop 16 (concat (drop 16 (rsvp_html e a))))
      (html_content (rsvp_message e a))"
    by (rule suffix_order.trans[OF suffix_drop])
  have 1: "comments a = [] \<longrightarrow>
      suffix (''<li>WhatsApp: '' @ whatsapp_number a
              @ ''</li>\<newline>                \<newline>            </ul>\<newline>''
              @ ''            \<newline>''
              @ ''            <p>Veja todos os convidados no seu painel.</p>\<newline>        '')
        (html_content (rsvp_message e a))"
    using s by (auto simp: rsvp_html_def)
  have 2: "comments a \<noteq> [] \<longrightarrow>
      suffix (''<li>WhatsApp: '' @ whatsapp_number a
              @ ''</li>\<newline>                <li>Coment'' @ [CHR 0xE1] @ ''rios: ''
              @ comments a @ ''</li>\<newline>            </ul>\<newline>''
              @ ''            \<newline>''
              @ ''            <p>Veja todos os convidados no seu painel.</p>\<newline>        '')
        (html_content (rsvp_message e a))"
    using s by (auto simp: rsvp_html_def)
  have 3: "\<And>x. x \<in> set (rsvp_html e a) \<Longrightarrow> sublist x (html_content (rsvp_message e a))"
    by (simp add: rsvp_message_def sublist_concat)
  have 4: "name a \<in> set (rsvp_html e a)" "title e \<in> set (rsvp_html e a)"
    "str_int (num_adults a) \<in> set (rsvp_html e a)"
    "str_int (num_children a) \<in> set (rsvp_html e a)"
    "whatsapp_number a \<in> set (rsvp_html e a)"
    by (simp_all add: rsvp_html_def)
  have c: "html_content (rsvp_message e a) = concat (rsvp_html e a)"
    by (simp add: rsvp_message_def)
  have "drop 10 (rsvp_html e a)
      = (''                '' @ ''<li>Adultos: '') # str_int (num_adults a)
        # (''</li>'' @ ''\<newline>'') # drop 13 (rsvp_html e a)"
    by (simp add: rsvp_html_def)
  then have 5: "sublist (''<li>Adultos: '' @ str_int (num_adults a) @ ''</li>'')
      (html_content (rsvp_message e a))"
    unfolding c by (rule sublist_concat_item)
  have "drop 13 (rsvp_html e a)
      = (''                '' @ (''<li>Crian'' @ [CHR 0xE7] @ ''as: ''))
        # str_int (num_children a) # (''</li>'' @ ''\<newline>'') # drop 16 (rsvp_html e a)"
    by (simp add: rsvp_html_def)
  then have "sublist ((''<li>Crian'' @ [CHR 0xE7] @ ''as: '') @ str_int (num_children a) @ ''</li>'')
      (html_content (rsvp_message e a))"
    unfolding c by (rule sublist_concat_item)
  then have 6: "sublist (''<li>Crian'' @ [CHR 0xE7] @ ''as: '' @ str_int (num_children a) @ ''</li>'')
      (html_content (rsvp_message e a))"
    by simp
  show ?thesis
    using 1 2 3[OF 4(1)] 3[OF 4(2)] 3[OF 4(3)] 3[OF 4(4)] 3[OF 4(5)] 5 6
      decimal_value_str_int[of "num_adults a"] decimal_value_str_int[of "num_children a"]
    by blast
qed

theorem rsvp_body_comments_witness:
  "comments maria = [] \<and>
   suffix (''<li>WhatsApp: 5521988888888</li>\<newline>                \<newline>''
           @ ''            </ul>\<newline>            \<newline>''
           @ ''            <p>Veja todos os convidados no seu painel.</p>\<newline>        '')
     (html_content (rsvp_message example_event maria)) \<and>
   comments (maria\<lparr>comments := ''Sem gluten''\<rparr>) \<noteq> [] \<and>
   suffix (''<li>WhatsApp: 5521988888888</li>\<newline>                <li>Coment''
           @ [CHR 0xE1] @ ''rios: Sem gluten</li>\<newline>''
           @ ''            </ul>\<newline>            \<newline>''
           @ ''            <p>Veja todos os convidados no seu painel.</p>\<newline>        '')
     (html_content (rsvp_message example_event (maria\<lparr>comments := ''Sem gluten''\<rparr>))) \<and>
   sublist ''Maria'' (html_content (rsvp_message example_event maria)) \<and>
   sublist ''Festa Junina'' (html_content (rsvp_message example_event maria)) \<and>
   sublist ''<li>Adultos: 2</li>'' (html_content (rsvp_message example_event maria)) \<and>
   decimal_value ''2'' = Some (num_adults maria) \<and>
   sublist (''<li>Crian'' @ [CHR 0xE7] @ ''as: 1</li>'')
     (html_content (rsvp_message example_event maria)) \<and>
   decimal_value ''1'' = Some (num_children maria)"
proof -
  have h1: "comments maria = []"
    by (simp add: maria_def)
  have h2: "comments (maria\<lparr>comments := ''Sem gluten''\<rparr>) \<noteq> []"
    by simp
  note t1 = rsvp_body_comments[of maria example_event]
  note t2 = rsvp_body_comments[of "maria\<lparr>comments := ''Sem gluten''\<rparr>" example_event]
  have v: "whatsapp_number maria = ''5521988888888''" "name maria = ''Maria''"
    "title example_event = ''Festa Junina''"
    "str_int (num_adults maria) = ''2''" "str_int (num_children maria) = ''1''"
    by (simp_all add: maria_def example_event_def str_int_examples)
  from t1 t2 h1 h2 v show ?thesis
    by simp
qed

text \<open>
  C9. Each of the three notifiers returns False when the send raises an exception,
  and True when the send returns a response.
\<close>

theorem notifiers_return_bool:
  "(sg (rsvp_message e a) = Inl x \<longrightarrow> send_rsvp_notification sg e a = False) \<and>
   (sg (rsvp_message e a) = Inr r \<longrightarrow> send_rsvp_notification sg e a = True) \<and>
   (sg (modification_message e a) = Inl x
      \<longrightarrow> send_modification_notification sg e a changes = False) \<and>
   (sg (modification_message e a) = Inr r
      \<longrightarrow> send_modification_notification sg e a changes = True) \<and>
   (sg (cancellation_message e a reason) = Inl x
      \<longrightarrow> send_cancellation_notification sg e a reason = False) \<and>
   (sg (cancellation_message e a reason) = Inr r
      \<longrightarrow> send_cancellation_notification sg e a reason = True)"
  by (simp add: send_rsvp_notification_def send_modification_notification_def
      send_cancellation_notification_def)

theorem notifiers_return_bool_witness:
  "sendgrid_rejects (rsvp_message example_event maria) = Inl OtherException \<and>
   sendgrid_accepts (rsvp_message example_event maria) = Inr 202 \<and>
   send_rsvp_notification sendgrid_rejects example_event maria = False \<and>
   send_modification_notification sendgrid_rejects example_event maria PNone = False \<and>
   send_cancellation_notification sendgrid_rejects example_event maria ''Viagem'' = False \<and>
   send_rsvp_notification sendgrid_accepts example_event maria = True \<and>
   send_modification_notification sendgrid_accepts example_event maria PNone = True \<and>
   send_cancellation_notification sendgrid_accepts example_event maria ''Viagem'' = True"
proof -
  have r: "\<And>m. sendgrid_rejects m = Inl OtherException"
    by (simp add: sendgrid_rejects_def)
  have a: "\<And>m. sendgrid_accepts m = Inr 202"
    by (simp add: sendgrid_accepts_def)
  note t1 = notifiers_return_bool
    [of sendgrid_rejects example_event maria OtherException 202 PNone "''Viagem''"]
  note t2 = notifiers_return_bool
    [of sendgrid_accepts example_event maria OtherException 202 PNone "''Viagem''"]
  from t1 t2 r a show ?thesis
    by blast
qed

section \<open>Modifying an RSVP\<close>

text \<open>
  C10. Take the attendee a request names: the first attendee with the request's
  WhatsApp number of the first event with the request's slug. When \<open>modify_rsvp\<close>
  answers 200, that row is replaced in the table by the attendee with the changes
  applied, the answer shows the new row, the new row is what the same query finds
  afterwards, and its status is not "cancelled": if the attendee was "cancelled"
  before the request, it is "confirmed" afterwards.
\<close>

theorem modify_rsvp_reactivates:
  assumes "modify_rsvp cols db data = (Inr (body, 200), db')"
    and "py_get data ''event_slug'' = Inr event_slug"
    and "text_of cols event_slug = Some s"
    and "first_event db s = Some event"
    and "py_get data ''whatsapp_number'' = Inr whatsapp"
    and "text_of cols whatsapp = Some wa"
    and "first_attendee db (id_ev event) wa = Some attendee"
  shows "\<exists>attendee'.
           apply_changes cols data attendee = Some attendee' \<and>
           db' = db\<lparr> attendees :=
                   replace_first (is_rsvp (id_ev event) wa) attendee' (attendees db) \<rparr> \<and>
           first_attendee db' (id_ev event) wa = Some attendee' \<and>
           (body, 200) = updated_response attendee' \<and>
           id_att attendee' = id_att attendee \<and>
           status attendee' \<noteq> ''cancelled'' \<and>
           (status attendee = ''cancelled'' \<longrightarrow> status attendee' = ''confirmed'')"
proof -
  from assms obtain attendee' where
    c: "apply_changes cols data attendee = Some attendee'"
    and b: "(body, 200) = updated_response attendee'"
    and d: "db' = db\<lparr> attendees :=
              replace_first (is_rsvp (id_ev event) wa) attendee' (attendees db) \<rparr>"
    by (auto simp: modify_rsvp_def error_response_def
        split: sum.splits if_splits option.splits)
  from assms(7) have "is_rsvp (id_ev event) wa attendee"
    by (auto simp: first_attendee_def find_Some_iff)
  with apply_changes_keeps[OF c] have p: "is_rsvp (id_ev event) wa attendee'"
    by (simp add: is_rsvp_def)
  have "first_attendee db' (id_ev event) wa = Some attendee'"
    using assms(7) p by (simp add: d first_attendee_def find_replace_first)
  moreover have "status attendee' \<noteq> ''cancelled''"
    using apply_changes_keeps[OF c] by (simp split: if_splits)
  moreover have "status attendee = ''cancelled'' \<longrightarrow> status attendee' = ''confirmed''"
    using apply_changes_keeps[OF c] by simp
  moreover have "id_att attendee' = id_att attendee"
    using apply_changes_keeps[OF c] by simp
  ultimately show ?thesis
    using c b d by blast
qed

theorem modify_rsvp_reactivates_witness:
  "status maria = ''cancelled'' \<and>
   first_attendee example_database (id_ev example_event) ''5521988888888'' = Some maria \<and>
   modify_rsvp example_columns example_database example_request
     = (Inr (fst (updated_response maria_modified), 200),
        \<lparr> events = [example_event], attendees = [maria_modified] \<rparr>) \<and>
   status maria_modified = ''confirmed'' \<and>
   (\<exists>attendee'.
      apply_changes example_columns example_request maria = Some attendee' \<and>
      \<lparr> events = [example_event], attendees = [maria_modified] \<rparr>
        = example_database\<lparr> attendees :=
            replace_first (is_rsvp (id_ev example_event) ''5521988888888'') attendee'
              (attendees example_database) \<rparr> \<and>
      first_attendee \<lparr> events = [example_event], attendees = [maria_modified] \<rparr>
        (id_ev example_event) ''5521988888888'' = Some attendee' \<and>
      (fst (updated_response maria_modified), 200) = updated_response attendee' \<and>
      id_att attendee' = id_att maria \<and>
      status attendee' \<noteq> ''cancelled'' \<and>
      (status maria = ''cancelled'' \<longrightarrow> status attendee' = ''confirmed''))"
proof -
  have h1: "modify_rsvp example_columns example_database example_request
     = (Inr (fst (updated_response maria_modified), 200),
        \<lparr> events = [example_event], attendees = [maria_modified] \<rparr>)"
    by (simp add: modify_rsvp_def example_columns_def example_database_def example_request_def
        first_event_def example_event_def first_attendee_def is_rsvp_def maria_def
        apply_changes_def updated_def updated_response_def maria_modified_def)
  have h2: "py_get example_request ''event_slug'' = Inr (PStr ''abc123'')"
    by (simp add: example_request_def)
  have h3: "text_of example_columns (PStr ''abc123'') = Some ''abc123''"
    by (simp add: example_columns_def)
  have h4: "first_event example_database ''abc123'' = Some example_event"
    by (simp add: first_event_def example_database_def example_event_def)
  have h5: "py_get example_request ''whatsapp_number'' = Inr (PStr ''5521988888888'')"
    by (simp add: example_request_def)
  have h6: "text_of example_columns (PStr ''5521988888888'') = Some ''5521988888888''"
    by (simp add: example_columns_def)
  have h7: "first_attendee example_database (id_ev example_event) ''5521988888888''
      = Some maria"
    by (simp add: first_attendee_def example_database_def is_rsvp_def maria_def
        example_event_def)
  note t = modify_rsvp_reactivates[OF h1 h2 h3 h4 h5 h6 h7]
  have "status maria = ''cancelled''" "status maria_modified = ''confirmed''"
    by (simp_all add: maria_def maria_modified_def)
  with h1 h7 t show ?thesis
    by blast
qed

end
